theory Spec2Isabelle
  imports Main "HOL-Library.AList"
begin

section \<open>Local multi-platform build script (build_multi_platform.py)\<close>

text \<open>
  The script drives Docker through the operating system: it spawns processes, creates
  directories, lists directories and prints. The embedding makes this explicit.
  \<^item> Every call to the operating system is answered by an environment \<open>E\<close>, a record of
    response functions. A response may depend on everything that happened before the
    call (the history, a list of events), so that the same call can be answered
    differently the second time.
  \<^item> Every function returns its result together with the events it produced, in order;
    an event records the call and the response it got.
  \<^item> A Python exception is a value \<open>Raise e\<close>; the process ends in \<open>Exit code\<close>
    (\<open>sys.exit\<close>, or falling off the end of \<open>main\<close> with status 0) or in
    \<open>Uncaught e\<close> (a traceback).
  \<^item> The text of a printed line is kept as a constructor of \<open>msg\<close> carrying the values
    that the source interpolates into it.
  The lines that \<open>build_for_platform\<close> prints inside its try block after the container
  run, and the line that its handler prints, are its status lines. Most of them carry a
  symbol outside ASCII, and printing such a line raises \<open>UnicodeEncodeError\<close> on a
  standard output that cannot encode it: these prints ask the environment and can raise.
  The banner of \<open>build_for_platform\<close>, the line of \<open>run_command\<close> and the lines that \<open>main\<close>
  prints are taken to succeed. Exceptions are the synchronous ones of class
  \<open>Exception\<close> that the library calls raise; signals (\<open>KeyboardInterrupt\<close>) are not part of
  the model, so \<open>except Exception\<close> catches every modelled exception.
\<close>

subsection \<open>Platform registry\<close>

record config =
  image :: string
  system_name :: string
  setup_commands :: "string list"

definition PLATFORM_CONFIGS :: "(string \<times> config) list" where
  "PLATFORM_CONFIGS =
    [(''ubuntu20.04'',
       \<lparr>image = ''ubuntu:20.04'',
        system_name = ''ubuntu20.04'',
        setup_commands =
          [''apt-get update'',
           ''apt-get install -y python3 python3-pip sudo wget curl git build-essential'',
           ''ln -fs /usr/share/zoneinfo/UTC /etc/localtime'',
           ''DEBIAN_FRONTEND=noninteractive apt-get install -y tzdata'']\<rparr>),
     (''ubuntu22.04'',
       \<lparr>image = ''ubuntu:22.04'',
        system_name = ''ubuntu22.04'',
        setup_commands =
          [''apt-get update'',
           ''apt-get install -y python3 python3-pip sudo wget curl git build-essential'',
           ''ln -fs /usr/share/zoneinfo/UTC /etc/localtime'',
           ''DEBIAN_FRONTEND=noninteractive apt-get install -y tzdata'']\<rparr>),
     (''manylinux_2014'',
       \<lparr>image = ''quay.io/pypa/manylinux_2014_x86_64'',
        system_name = ''manylinux_2014'',
        setup_commands =
          [''yum update -y'',
           ''yum install -y python3 python3-pip sudo wget curl git'',
           ''yum groupinstall -y 'Development Tools'' @ [CHR 0x27],
           ''if ! command -v python3 &> /dev/null; then ln -s /usr/bin/python /usr/bin/python3; fi'']\<rparr>),
     (''manylinux_2_24'',
       \<lparr>image = ''quay.io/pypa/manylinux_2_24_x86_64'',
        system_name = ''manylinux_2_24'',
        setup_commands =
          [''yum update -y'',
           ''yum install -y python3 python3-pip sudo wget curl git'',
           ''yum groupinstall -y 'Development Tools'' @ [CHR 0x27]]\<rparr>)]"

text \<open>\<open>list(PLATFORM_CONFIGS.keys())\<close>: the keys in insertion order.\<close>

definition registry_keys :: "string list" where
  "registry_keys = map fst PLATFORM_CONFIGS"

subsection \<open>Exceptions, events and the environment\<close>

type_synonym path = string

datatype exn =
    CalledProcessError int string
  | FileNotFoundError
  | PermissionError
  | OSError
  | UnicodeEncodeError
  | KeyError string

datatype 'a res = Ok 'a | Raise exn

datatype outcome = Exit int | Uncaught exn

datatype msg =
    Running string
  | BuildingFor string
  | SuccessfullyBuilt string
  | GeneratedArtifacts "string list"
  | NoArtifactsGenerated
  | BuildFailed string
  | ErrorBuilding string exn
  | DockerNotAvailable
  | BuildingForPlatforms "string list"
  | Workspace path
  | OutputDirectory path
  | DryRunMode
  | RecipePlatform string
  | RecipeImage string
  | RecipeSystemName string
  | RecipeSetupCommands "string list"
  | BuildSummary
  | PlatformStatus string bool
  | TotalBuilt nat nat
  | ArtifactsSavedTo path
  | PlatformArtifacts string "string list"

text \<open>
  An event is a print or a call to the operating system with the response it got:
  for a process \<open>Inl e\<close> when the launch raised \<open>e\<close> and \<open>Inr rc\<close> when the process ran and
  ended with status \<open>rc\<close>; for \<open>mkdir\<close> \<open>None\<close> when it succeeded. \<open>Print m\<close> is a line
  that was printed, \<open>PrintRaised m e\<close> a print of the line \<open>m\<close> that raised \<open>e\<close>.
\<close>

datatype event =
    Print msg
  | PrintRaised msg exn
  | DockerVersion "exn + int"
  | Mkdir path "exn option"
  | Subprocess string "exn + int"
  | Glob path "exn + string list"
  | Iterdir path "exn + string list"
  | IsDir path bool

record env =
  docker_version :: "exn + int"
  path_mkdir :: "event list \<Rightarrow> path \<Rightarrow> exn option"
  subprocess_run :: "event list \<Rightarrow> string \<Rightarrow> exn + int"
  path_glob :: "event list \<Rightarrow> path \<Rightarrow> exn + string list"
  path_iterdir :: "event list \<Rightarrow> path \<Rightarrow> exn + string list"
  path_is_dir :: "event list \<Rightarrow> path \<Rightarrow> bool"
  stdout_write :: "event list \<Rightarrow> msg \<Rightarrow> exn option"
  path_cwd :: path

text \<open>
  \<open>docker_version\<close>: launching \<open>["docker", "--version"]\<close>, called once at the start.
  \<open>path_mkdir\<close>: \<open>Path.mkdir(parents=True, exist_ok=True)\<close>.
  \<open>subprocess_run\<close>: \<open>subprocess.run(cmd, shell=True)\<close>.
  \<open>path_glob\<close>: the names matched by \<open>Path.glob("*.tar.gz")\<close>.
  \<open>path_iterdir\<close>: the names of the entries of a directory. \<open>path_is_dir\<close>: \<open>Path.is_dir\<close>.
  \<open>stdout_write\<close>: what printing a status line raises, \<open>None\<close> when the line is printed.
\<close>

subsection \<open>Strings and paths\<close>

text \<open>\<open>sep.join(xs)\<close>\<close>

fun join :: "string \<Rightarrow> string list \<Rightarrow> string" where
  "join sep [] = []"
| "join sep [x] = x"
| "join sep (x # y # ys) = x @ sep @ join sep (y # ys)"

text \<open>\<open>output_dir / platform_name\<close>, for a relative name; \<open>str\<close> of a path is the path.\<close>

definition joinpath :: "path \<Rightarrow> string \<Rightarrow> path" where
  "joinpath d n = d @ ''/'' @ n"

subsection \<open>run_command\<close>

definition run_command :: "env \<Rightarrow> string \<Rightarrow> bool \<Rightarrow> event list \<Rightarrow> int res \<times> event list" where
  "run_command E cmd check h =
     (let result = subprocess_run E (h @ [Print (Running cmd)]) cmd;
          evs = [Print (Running cmd), Subprocess cmd result]
      in case result of
           Inl e \<Rightarrow> (Raise e, evs)
         | Inr returncode \<Rightarrow>
             if check \<and> returncode \<noteq> 0 then (Raise (CalledProcessError returncode cmd), evs)
             else (Ok returncode, evs))"

subsection \<open>build_for_platform\<close>

definition script_content :: "config \<Rightarrow> string list" where
  "script_content cfg =
     setup_commands cfg @
     [''echo 'System setup completed'' @ [CHR 0x27],
      ''echo 'Building for system: $SYSTEM_NAME'' @ [CHR 0x27],
      ''echo 'Architecture: $(uname -m)'' @ [CHR 0x27],
      ''python3 pack.py build'',
      ''echo 'Build completed, copying artifacts...'' @ [CHR 0x27],
      ''cp -v output_*.tar.gz /output_host/ 2>/dev/null || echo 'No tar.gz files to copy'' @ [CHR 0x27],
      ''cp -rv output_logs /output_host/ 2>/dev/null || echo 'No output_logs to copy'' @ [CHR 0x27],
      ''ls -la /output_host/'']"

definition docker_cmd :: "config \<Rightarrow> path \<Rightarrow> path \<Rightarrow> string list" where
  "docker_cmd cfg workspace_dir platform_output_dir =
     [''docker'',
      ''run'',
      ''--rm'',
      ''-it'',
      ''--privileged'',
      ''--volume='' @ workspace_dir @ '':/workspace'',
      ''--volume='' @ platform_output_dir @ '':/output_host'',
      ''--workdir=/workspace'',
      ''--env=SYSTEM_NAME='' @ system_name cfg,
      image cfg,
      ''bash'',
      ''-c''] @
     [join '' && '' (script_content cfg)]"

definition cmd_str :: "config \<Rightarrow> path \<Rightarrow> path \<Rightarrow> string" where
  "cmd_str cfg workspace_dir platform_output_dir =
     (let dc = docker_cmd cfg workspace_dir platform_output_dir
      in join '' '' (butlast dc) @ '' '' @ [CHR 0x22] @ last dc @ [CHR 0x22])"

text \<open>
  \<open>print\<close> of a status line of \<open>build_for_platform\<close>: the lines of the try block
  (\<open>SuccessfullyBuilt\<close>, \<open>GeneratedArtifacts\<close>, \<open>NoArtifactsGenerated\<close>, \<open>BuildFailed\<close>) and the
  line of the handler (\<open>ErrorBuilding\<close>).
\<close>

definition print_status :: "env \<Rightarrow> msg \<Rightarrow> event list \<Rightarrow> unit res \<times> event list" where
  "print_status E m h =
     (case stdout_write E h m of
        None \<Rightarrow> (Ok (), [Print m])
      | Some e \<Rightarrow> (Raise e, [PrintRaised m e]))"

text \<open>The statements inside \<open>try\<close>: an exception of any of them leaves the block.\<close>

definition build_try :: "env \<Rightarrow> string \<Rightarrow> config \<Rightarrow> path \<Rightarrow> path \<Rightarrow> event list \<Rightarrow> bool res \<times> event list" where
  "build_try E platform_name cfg workspace_dir platform_output_dir h =
     (case run_command E (cmd_str cfg workspace_dir platform_output_dir) False h of
        (Raise e, evs) \<Rightarrow> (Raise e, evs)
      | (Ok result, evs) \<Rightarrow>
          if result = 0 then
            (case print_status E (SuccessfullyBuilt platform_name) (h @ evs) of
               (Raise e, evs1) \<Rightarrow> (Raise e, evs @ evs1)
             | (Ok u, evs1) \<Rightarrow>
                 (let listing = path_glob E (h @ evs @ evs1) platform_output_dir;
                      evs2 = evs @ evs1 @ [Glob platform_output_dir listing]
                  in case listing of
                       Inl e \<Rightarrow> (Raise e, evs2)
                     | Inr artifacts \<Rightarrow>
                         (case print_status E
                                 (if artifacts \<noteq> [] then GeneratedArtifacts artifacts
                                  else NoArtifactsGenerated)
                                 (h @ evs2) of
                            (Raise e, evs3) \<Rightarrow> (Raise e, evs2 @ evs3)
                          | (Ok u, evs3) \<Rightarrow> (Ok (result = 0), evs2 @ evs3))))
          else
            (case print_status E (BuildFailed platform_name) (h @ evs) of
               (Raise e, evs1) \<Rightarrow> (Raise e, evs @ evs1)
             | (Ok u, evs1) \<Rightarrow> (Ok (result = 0), evs @ evs1)))"

text \<open>
  The handler prints the error line and returns false; an exception raised by that
  print leaves the handler and the function.
\<close>

definition build_for_platform :: "env \<Rightarrow> string \<Rightarrow> config \<Rightarrow> path \<Rightarrow> path \<Rightarrow> event list \<Rightarrow> bool res \<times> event list" where
  "build_for_platform E platform_name cfg workspace_dir output_dir h =
     (let evs0 = [Print (BuildingFor platform_name)];
          platform_output_dir = joinpath output_dir platform_name;
          made = path_mkdir E (h @ evs0) platform_output_dir;
          evs1 = evs0 @ [Mkdir platform_output_dir made]
      in case made of
           Some e \<Rightarrow> (Raise e, evs1)
         | None \<Rightarrow>
             (case build_try E platform_name cfg workspace_dir platform_output_dir (h @ evs1) of
                (Raise e, evs) \<Rightarrow>
                  (case print_status E (ErrorBuilding platform_name e) (h @ evs1 @ evs) of
                     (Raise e', evs') \<Rightarrow> (Raise e', evs1 @ evs @ evs')
                   | (Ok u, evs') \<Rightarrow> (Ok False, evs1 @ evs @ evs'))
              | (Ok b, evs) \<Rightarrow> (Ok b, evs1 @ evs)))"

subsection \<open>Command line\<close>

text \<open>
  The values that follow the options on the command line, \<open>None\<close> for an option that is
  absent, and the namespace that \<open>parser.parse_args()\<close> returns.
\<close>

record command_line =
  opt_platforms :: "string list option"
  opt_output_dir :: "path option"
  opt_workspace :: "path option"
  opt_dry_run :: bool

record args =
  platforms :: "string list"
  output_dir :: path
  workspace :: path
  dry_run :: bool

text \<open>\<open>choices=list(PLATFORM_CONFIGS.keys()) + ["all"]\<close>\<close>

definition choices :: "string list" where
  "choices = registry_keys @ [''all'']"

text \<open>
  \<open>parse_args\<close> follows the standard library's argparse for the four arguments that \<open>main\<close>
  declares. For \<open>--platforms\<close> (\<open>nargs="+"\<close>, \<open>choices\<close>, \<open>default=["all"]\<close>): an absent
  option gives the default; the option needs at least one value; every value is checked
  against \<open>choices\<close>; a violation ends the process with status 2 (\<open>parser.error\<close>).
\<close>

definition parse_args :: "path \<Rightarrow> command_line \<Rightarrow> int + args" where
  "parse_args cwd c =
     (let rest = \<lparr>platforms = [],
                  output_dir = (case opt_output_dir c of None \<Rightarrow> ''multi_platform_builds'' | Some p \<Rightarrow> p),
                  workspace = (case opt_workspace c of None \<Rightarrow> cwd | Some p \<Rightarrow> p),
                  dry_run = opt_dry_run c\<rparr>
      in case opt_platforms c of
           None \<Rightarrow> Inr (rest\<lparr>platforms := [''all'']\<rparr>)
         | Some vs \<Rightarrow>
             if vs = [] then Inl 2
             else if list_all (\<lambda>v. v \<in> set choices) vs then Inr (rest\<lparr>platforms := vs\<rparr>)
             else Inl 2)"

subsection \<open>main\<close>

text \<open>\<open>subprocess.run(["docker", "--version"], check=True, capture_output=True)\<close>\<close>

definition check_docker :: "env \<Rightarrow> unit res \<times> event list" where
  "check_docker E =
     (let r = docker_version E; evs = [DockerVersion r]
      in case r of
           Inl e \<Rightarrow> (Raise e, evs)
         | Inr returncode \<Rightarrow>
             if returncode \<noteq> 0 then (Raise (CalledProcessError returncode ''docker --version''), evs)
             else (Ok (), evs))"

text \<open>\<open>except (subprocess.CalledProcessError, FileNotFoundError)\<close>\<close>

fun caught_by_probe :: "exn \<Rightarrow> bool" where
  "caught_by_probe (CalledProcessError rc cmd) = True"
| "caught_by_probe FileNotFoundError = True"
| "caught_by_probe e = False"

definition platforms_to_build :: "string list \<Rightarrow> string list" where
  "platforms_to_build ps = (if ''all'' \<in> set ps then registry_keys else ps)"

text \<open>The loop of the dry-run branch.\<close>

fun dry_run_loop :: "string list \<Rightarrow> unit res \<times> event list" where
  "dry_run_loop [] = (Ok (), [])"
| "dry_run_loop (platform # rest) =
     (case map_of PLATFORM_CONFIGS platform of
        None \<Rightarrow> (Raise (KeyError platform), [])
      | Some cfg \<Rightarrow>
          (let evs = [Print (RecipePlatform platform),
                      Print (RecipeImage (image cfg)),
                      Print (RecipeSystemName (system_name cfg)),
                      Print (RecipeSetupCommands (setup_commands cfg))]
           in case dry_run_loop rest of (r, evs') \<Rightarrow> (r, evs @ evs')))"

text \<open>
  The build loop. \<open>results\<close> is the dict, in insertion order: \<open>results[platform] = success\<close>
  replaces the value of a key that is present and appends a new key otherwise.
\<close>

fun build_loop :: "env \<Rightarrow> string list \<Rightarrow> path \<Rightarrow> path \<Rightarrow> (string \<times> bool) list \<Rightarrow> event list \<Rightarrow> (string \<times> bool) list res \<times> event list" where
  "build_loop E [] ws od results h = (Ok results, [])"
| "build_loop E (platform # rest) ws od results h =
     (case map_of PLATFORM_CONFIGS platform of
        None \<Rightarrow> (Raise (KeyError platform), [])
      | Some cfg \<Rightarrow>
          (case build_for_platform E platform cfg ws od h of
             (Raise e, evs) \<Rightarrow> (Raise e, evs)
           | (Ok success, evs) \<Rightarrow>
               (case build_loop E rest ws od (AList.update platform success results) (h @ evs) of
                  (r, evs') \<Rightarrow> (r, evs @ evs'))))"

text \<open>The loop of the summary: one status line per entry of \<open>results\<close>, counting the successes.\<close>

fun summary_loop :: "(string \<times> bool) list \<Rightarrow> nat \<Rightarrow> nat \<times> event list" where
  "summary_loop [] successful = (successful, [])"
| "summary_loop ((platform, success) # rest) successful =
     (case summary_loop rest (if success then successful + 1 else successful) of
        (n, evs) \<Rightarrow> (n, Print (PlatformStatus platform success) # evs))"

text \<open>The loop over \<open>args.output_dir.iterdir()\<close>.\<close>

fun list_artifacts :: "env \<Rightarrow> path \<Rightarrow> string list \<Rightarrow> event list \<Rightarrow> unit res \<times> event list" where
  "list_artifacts E od [] h = (Ok (), [])"
| "list_artifacts E od (name # rest) h =
     (let platform_dir = joinpath od name;
          d = path_is_dir E h platform_dir;
          evs0 = [IsDir platform_dir d]
      in if d then
           (let listing = path_glob E (h @ evs0) platform_dir;
                evs1 = evs0 @ [Glob platform_dir listing]
            in case listing of
                 Inl e \<Rightarrow> (Raise e, evs1)
               | Inr artifacts \<Rightarrow>
                   (let evs2 = evs1 @ (if artifacts \<noteq> [] then [Print (PlatformArtifacts name artifacts)] else [])
                    in case list_artifacts E od rest (h @ evs2) of (r, evs') \<Rightarrow> (r, evs2 @ evs')))
         else (case list_artifacts E od rest (h @ evs0) of (r, evs') \<Rightarrow> (r, evs0 @ evs')))"

text \<open>The summary and the exit code (the source's lines after the build loop).\<close>

definition summary :: "env \<Rightarrow> path \<Rightarrow> (string \<times> bool) list \<Rightarrow> event list \<Rightarrow> outcome \<times> event list" where
  "summary E od results h =
     (case summary_loop results 0 of
        (successful, lines) \<Rightarrow>
          (let evs1 = [Print BuildSummary] @ lines @ [Print (TotalBuilt successful (length results))];
               final = (if successful < length results then Exit 1 else Exit 0)
           in if successful > 0 then
                (let evs2 = evs1 @ [Print (ArtifactsSavedTo od)];
                     entries = path_iterdir E (h @ evs2) od;
                     evs3 = evs2 @ [Iterdir od entries]
                 in case entries of
                      Inl e \<Rightarrow> (Uncaught e, evs3)
                    | Inr names \<Rightarrow>
                        (case list_artifacts E od names (h @ evs3) of
                           (Raise e, evs) \<Rightarrow> (Uncaught e, evs3 @ evs)
                         | (Ok u, evs) \<Rightarrow> (final, evs3 @ evs)))
              else (final, evs1)))"

text \<open>\<open>main\<close> from the availability check on, for the namespace \<open>a\<close>.\<close>

definition main_parsed :: "env \<Rightarrow> args \<Rightarrow> outcome \<times> event list" where
  "main_parsed E a =
     (case check_docker E of
        (Raise e, evs0) \<Rightarrow>
          if caught_by_probe e then (Exit 1, evs0 @ [Print DockerNotAvailable])
          else (Uncaught e, evs0)
      | (Ok u, evs0) \<Rightarrow>
          (let ptb = platforms_to_build (platforms a);
               evs1 = evs0 @ [Print (BuildingForPlatforms ptb),
                              Print (Workspace (workspace a)),
                              Print (OutputDirectory (output_dir a))]
           in if dry_run a then
                (case dry_run_loop ptb of
                   (Raise e, evs) \<Rightarrow> (Uncaught e, evs1 @ [Print DryRunMode] @ evs)
                 | (Ok u, evs) \<Rightarrow> (Exit 0, evs1 @ [Print DryRunMode] @ evs))
              else
                (let made = path_mkdir E evs1 (output_dir a);
                     evs2 = evs1 @ [Mkdir (output_dir a) made]
                 in case made of
                      Some e \<Rightarrow> (Uncaught e, evs2)
                    | None \<Rightarrow>
                        (case build_loop E ptb (workspace a) (output_dir a) [] evs2 of
                           (Raise e, evs) \<Rightarrow> (Uncaught e, evs2 @ evs)
                         | (Ok results, evs) \<Rightarrow>
                             (case summary E (output_dir a) results (evs2 @ evs) of
                                (out, evs') \<Rightarrow> (out, evs2 @ evs @ evs'))))))"

definition main :: "env \<Rightarrow> command_line \<Rightarrow> outcome \<times> event list" where
  "main E c =
     (case parse_args (path_cwd E) c of
        Inl code \<Rightarrow> (Exit code, [])
      | Inr a \<Rightarrow> main_parsed E a)"

subsection \<open>Reading a run\<close>

text \<open>What a list of events shows: the directory creations, the container runs, the recipe lines.\<close>

fun is_mkdir :: "event \<Rightarrow> bool" where
  "is_mkdir (Mkdir d r) = True"
| "is_mkdir ev = False"

fun is_container_run :: "event \<Rightarrow> bool" where
  "is_container_run (Subprocess c r) = True"
| "is_container_run ev = False"

fun is_recipe :: "event \<Rightarrow> bool" where
  "is_recipe (Print (RecipePlatform p)) = True"
| "is_recipe (Print (RecipeImage i)) = True"
| "is_recipe (Print (RecipeSystemName n)) = True"
| "is_recipe (Print (RecipeSetupCommands cs)) = True"
| "is_recipe ev = False"

text \<open>
  The platforms for which \<open>build_for_platform\<close> was entered, in order: its first statement
  prints the banner \<open>BuildingFor\<close>.
\<close>

fun attempted :: "event list \<Rightarrow> string list" where
  "attempted [] = []"
| "attempted (Print (BuildingFor p) # evs) = p # attempted evs"
| "attempted (ev # evs) = attempted evs"

text \<open>The status lines of the summary: the entries of \<open>results\<close>.\<close>

fun reported :: "event list \<Rightarrow> (string \<times> bool) list" where
  "reported [] = []"
| "reported (Print (PlatformStatus p s) # evs) = (p, s) # reported evs"
| "reported (ev # evs) = reported evs"

text \<open>The four lines that the dry-run branch prints for a platform.\<close>

definition recipe :: "string \<Rightarrow> event list" where
  "recipe p =
     (case map_of PLATFORM_CONFIGS p of
        None \<Rightarrow> []
      | Some cfg \<Rightarrow>
          [Print (RecipePlatform p),
           Print (RecipeImage (image cfg)),
           Print (RecipeSystemName (system_name cfg)),
           Print (RecipeSetupCommands (setup_commands cfg))])"

subsection \<open>Concrete environments and command lines\<close>

definition ubuntu20_04 :: config where
  "ubuntu20_04 = snd (PLATFORM_CONFIGS ! 0)"


text \<open>
  Docker is installed, every directory can be created, every build succeeds, and the
  standard output takes every line.
\<close>

definition env_all_ok :: env where
  "env_all_ok =
     \<lparr>docker_version = Inr 0,
      path_mkdir = (\<lambda>h p. None),
      subprocess_run = (\<lambda>h c. Inr 0),
      path_glob = (\<lambda>h p. Inr [''output_1.0.tar.gz'']),
      path_iterdir = (\<lambda>h p. Inr (remdups (attempted h))),
      path_is_dir = (\<lambda>h p. True),
      stdout_write = (\<lambda>h m. None),
      path_cwd = ''/src''\<rparr>"

text \<open>The container exits with status 0 and listing the output directory raises.\<close>

definition env_listing_fails :: env where
  "env_listing_fails = env_all_ok\<lparr>path_glob := (\<lambda>h p. Inl OSError)\<rparr>"



text \<open>The status lines that carry a symbol outside ASCII.\<close>

fun has_symbol :: "msg \<Rightarrow> bool" where
  "has_symbol (SuccessfullyBuilt p) = True"
| "has_symbol NoArtifactsGenerated = True"
| "has_symbol (BuildFailed p) = True"
| "has_symbol (ErrorBuilding p e) = True"
| "has_symbol m = False"

text \<open>A standard output with an ASCII encoding: a line with such a symbol cannot be printed.\<close>

definition env_ascii_stdout :: env where
  "env_ascii_stdout =
     env_all_ok\<lparr>stdout_write := (\<lambda>h m. if has_symbol m then Some UnicodeEncodeError else None)\<rparr>"


text \<open>The first container run of the process exits with status 1, every later one with 0.\<close>

definition env_first_run_fails :: env where
  "env_first_run_fails =
     env_all_ok\<lparr>subprocess_run := (\<lambda>h c. if list_ex is_container_run h then Inr 0 else Inr 1)\<rparr>"

text \<open>No \<open>docker\<close> binary; a \<open>docker\<close> whose version query exits with status 1.\<close>

definition env_no_docker :: env where
  "env_no_docker = env_all_ok\<lparr>docker_version := Inl FileNotFoundError\<rparr>"

definition env_docker_broken :: env where
  "env_docker_broken = env_all_ok\<lparr>docker_version := Inr 1\<rparr>"

text \<open>\<open>--platforms ps\<close>, with or without \<open>--dry-run\<close>.\<close>

definition cl_platforms :: "string list \<Rightarrow> bool \<Rightarrow> command_line" where
  "cl_platforms ps dry =
     \<lparr>opt_platforms = Some ps, opt_output_dir = None, opt_workspace = None, opt_dry_run = dry\<rparr>"

text \<open>The namespace that \<open>cl_platforms ps dry\<close> parses to when \<open>ps\<close> is accepted.\<close>

definition args_platforms :: "string list \<Rightarrow> bool \<Rightarrow> args" where
  "args_platforms ps dry =
     \<lparr>platforms = ps, output_dir = ''multi_platform_builds'', workspace = ''/src'', dry_run = dry\<rparr>"

section \<open>Basic facts\<close>

lemma registry_keys_eq:
  "registry_keys = [''ubuntu20.04'', ''ubuntu22.04'', ''manylinux_2014'', ''manylinux_2_24'']"
  by (simp add: registry_keys_def PLATFORM_CONFIGS_def)

lemma registry_lookup_0: "map_of PLATFORM_CONFIGS ''ubuntu20.04'' = Some ubuntu20_04"
  by (simp add: PLATFORM_CONFIGS_def ubuntu20_04_def)


lemma registry_lookup:
  assumes "p \<in> set registry_keys"
  shows "\<exists>cfg. map_of PLATFORM_CONFIGS p = Some cfg"
proof (cases "map_of PLATFORM_CONFIGS p")
  case None
  then have "p \<notin> fst ` set PLATFORM_CONFIGS" by (simp add: map_of_eq_None_iff)
  with assms show ?thesis by (simp add: registry_keys_def)
next
  case (Some cfg)
  then show ?thesis by blast
qed

lemma parse_args_platforms:
  assumes "parse_args cwd c = Inr a"
  shows "platforms a \<noteq> [] \<and> set (platforms a) \<subseteq> set registry_keys \<union> {''all''}"
  using assms
  by (auto simp add: parse_args_def choices_def Let_def list_all_iff split: option.splits if_splits)

lemma platforms_to_build_registered:
  assumes "parse_args cwd c = Inr a"
  shows "set (platforms_to_build (platforms a)) \<subseteq> set registry_keys"
  using parse_args_platforms [OF assms] by (auto simp add: platforms_to_build_def)

lemma attempted_append: "attempted (xs @ ys) = attempted xs @ attempted ys"
  by (induction xs rule: attempted.induct) simp_all

lemma reported_append: "reported (xs @ ys) = reported xs @ reported ys"
  by (induction xs rule: reported.induct) simp_all

subsection \<open>run_command and build_for_platform\<close>

text \<open>\<open>build_for_platform\<close> calls \<open>run_command\<close> with \<open>check=False\<close>: it never raises by itself.\<close>

lemma run_command_unchecked:
  "run_command E cmd False h =
     (case subprocess_run E (h @ [Print (Running cmd)]) cmd of
        Inl e \<Rightarrow> (Raise e, [Print (Running cmd), Subprocess cmd (Inl e)])
      | Inr rc \<Rightarrow> (Ok rc, [Print (Running cmd), Subprocess cmd (Inr rc)]))"
  by (simp add: run_command_def Let_def split: sum.splits)

lemmas build_for_platform_unfold =
  build_for_platform_def build_try_def print_status_def run_command_unchecked Let_def

text \<open>The seven ways through the try block, each with the events it leaves.\<close>

lemma build_try_cases:
  obtains
    (spawn) e where
      "subprocess_run E (h @ [Print (Running (cmd_str cfg ws d))]) (cmd_str cfg ws d) = Inl e"
      "build_try E p cfg ws d h =
        (Raise e, [Print (Running (cmd_str cfg ws d)), Subprocess (cmd_str cfg ws d) (Inl e)])"
  | (failed) rc where "rc \<noteq> 0"
      "subprocess_run E (h @ [Print (Running (cmd_str cfg ws d))]) (cmd_str cfg ws d) = Inr rc"
      "build_try E p cfg ws d h =
        (Ok False, [Print (Running (cmd_str cfg ws d)), Subprocess (cmd_str cfg ws d) (Inr rc),
                    Print (BuildFailed p)])"
  | (failed_print) rc e where "rc \<noteq> 0"
      "subprocess_run E (h @ [Print (Running (cmd_str cfg ws d))]) (cmd_str cfg ws d) = Inr rc"
      "stdout_write E (h @ [Print (Running (cmd_str cfg ws d)), Subprocess (cmd_str cfg ws d) (Inr rc)])
         (BuildFailed p) = Some e"
      "build_try E p cfg ws d h =
        (Raise e, [Print (Running (cmd_str cfg ws d)), Subprocess (cmd_str cfg ws d) (Inr rc),
                   PrintRaised (BuildFailed p) e])"
  | (built_print) e where
      "subprocess_run E (h @ [Print (Running (cmd_str cfg ws d))]) (cmd_str cfg ws d) = Inr 0"
      "stdout_write E (h @ [Print (Running (cmd_str cfg ws d)), Subprocess (cmd_str cfg ws d) (Inr 0)])
         (SuccessfullyBuilt p) = Some e"
      "build_try E p cfg ws d h =
        (Raise e, [Print (Running (cmd_str cfg ws d)), Subprocess (cmd_str cfg ws d) (Inr 0),
                   PrintRaised (SuccessfullyBuilt p) e])"
  | (listing) e where
      "subprocess_run E (h @ [Print (Running (cmd_str cfg ws d))]) (cmd_str cfg ws d) = Inr 0"
      "path_glob E (h @ [Print (Running (cmd_str cfg ws d)), Subprocess (cmd_str cfg ws d) (Inr 0),
                         Print (SuccessfullyBuilt p)]) d = Inl e"
      "build_try E p cfg ws d h =
        (Raise e, [Print (Running (cmd_str cfg ws d)), Subprocess (cmd_str cfg ws d) (Inr 0),
                   Print (SuccessfullyBuilt p), Glob d (Inl e)])"
  | (built) artifacts where
      "subprocess_run E (h @ [Print (Running (cmd_str cfg ws d))]) (cmd_str cfg ws d) = Inr 0"
      "path_glob E (h @ [Print (Running (cmd_str cfg ws d)), Subprocess (cmd_str cfg ws d) (Inr 0),
                         Print (SuccessfullyBuilt p)]) d = Inr artifacts"
      "build_try E p cfg ws d h =
        (Ok True, [Print (Running (cmd_str cfg ws d)), Subprocess (cmd_str cfg ws d) (Inr 0),
                   Print (SuccessfullyBuilt p), Glob d (Inr artifacts),
                   Print (if artifacts \<noteq> [] then GeneratedArtifacts artifacts else NoArtifactsGenerated)])"
  | (artifacts_print) artifacts e where
      "subprocess_run E (h @ [Print (Running (cmd_str cfg ws d))]) (cmd_str cfg ws d) = Inr 0"
      "path_glob E (h @ [Print (Running (cmd_str cfg ws d)), Subprocess (cmd_str cfg ws d) (Inr 0),
                         Print (SuccessfullyBuilt p)]) d = Inr artifacts"
      "stdout_write E (h @ [Print (Running (cmd_str cfg ws d)), Subprocess (cmd_str cfg ws d) (Inr 0),
                            Print (SuccessfullyBuilt p), Glob d (Inr artifacts)])
         (if artifacts \<noteq> [] then GeneratedArtifacts artifacts else NoArtifactsGenerated) = Some e"
      "build_try E p cfg ws d h =
        (Raise e, [Print (Running (cmd_str cfg ws d)), Subprocess (cmd_str cfg ws d) (Inr 0),
                   Print (SuccessfullyBuilt p), Glob d (Inr artifacts),
                   PrintRaised (if artifacts \<noteq> [] then GeneratedArtifacts artifacts else NoArtifactsGenerated) e])"
proof -
  let ?c = "cmd_str cfg ws d"
  let ?run = "[Print (Running ?c), Subprocess ?c (Inr 0)]"
  show thesis
  proof (cases "subprocess_run E (h @ [Print (Running ?c)]) ?c")
    case (Inl e)
    then have "build_try E p cfg ws d h = (Raise e, [Print (Running ?c), Subprocess ?c (Inl e)])"
      by (simp add: build_try_def run_command_unchecked)
    with Inl show thesis by (rule spawn)
  next
    case (Inr rc)
    show thesis
    proof (cases "rc = 0")
      case False
      show thesis
      proof (cases "stdout_write E (h @ [Print (Running ?c), Subprocess ?c (Inr rc)]) (BuildFailed p)")
        case None
        with Inr False have "build_try E p cfg ws d h =
            (Ok False, [Print (Running ?c), Subprocess ?c (Inr rc), Print (BuildFailed p)])"
          by (simp add: build_try_def run_command_unchecked print_status_def)
        with False Inr show thesis by (rule failed)
      next
        case (Some e)
        with Inr False have "build_try E p cfg ws d h =
            (Raise e, [Print (Running ?c), Subprocess ?c (Inr rc), PrintRaised (BuildFailed p) e])"
          by (simp add: build_try_def run_command_unchecked print_status_def)
        with False Inr Some show thesis by (rule failed_print)
      qed
    next
      case True
      with Inr have run: "subprocess_run E (h @ [Print (Running ?c)]) ?c = Inr 0" by simp
      show thesis
      proof (cases "stdout_write E (h @ ?run) (SuccessfullyBuilt p)")
        case (Some e)
        with run have "build_try E p cfg ws d h = (Raise e, ?run @ [PrintRaised (SuccessfullyBuilt p) e])"
          by (simp add: build_try_def run_command_unchecked print_status_def)
        with run Some show thesis using built_print [of e] by simp
      next
        case None
        let ?pre = "?run @ [Print (SuccessfullyBuilt p)]"
        show thesis
        proof (cases "path_glob E (h @ ?pre) d")
          case (Inl e)
          with run None have "build_try E p cfg ws d h = (Raise e, ?pre @ [Glob d (Inl e)])"
            by (simp add: build_try_def run_command_unchecked print_status_def)
          with run Inl show thesis using listing [of e] by simp
        next
          case (Inr artifacts)
          let ?m = "if artifacts \<noteq> [] then GeneratedArtifacts artifacts else NoArtifactsGenerated"
          show thesis
          proof (cases "stdout_write E (h @ ?pre @ [Glob d (Inr artifacts)]) ?m")
            case None
            with run \<open>stdout_write E (h @ ?run) (SuccessfullyBuilt p) = None\<close> Inr
            have "build_try E p cfg ws d h = (Ok True, ?pre @ [Glob d (Inr artifacts), Print ?m])"
              by (simp add: build_try_def run_command_unchecked print_status_def)
            with run Inr show thesis using built [of artifacts] by simp
          next
            case (Some e)
            with run \<open>stdout_write E (h @ ?run) (SuccessfullyBuilt p) = None\<close> Inr
            have "build_try E p cfg ws d h = (Raise e, ?pre @ [Glob d (Inr artifacts), PrintRaised ?m e])"
              by (simp add: build_try_def run_command_unchecked print_status_def)
            with run Inr Some show thesis using artifacts_print [of artifacts e] by simp
          qed
        qed
      qed
    qed
  qed
qed

text \<open>What the try block leaves behind, whichever way it ends.\<close>

lemma build_try_trace:
  "attempted (snd (build_try E p cfg ws d h)) = [] \<and>
   reported (snd (build_try E p cfg ws d h)) = [] \<and>
   length (filter is_container_run (snd (build_try E p cfg ws d h))) = 1 \<and>
   (\<forall>x r. Mkdir x r \<notin> set (snd (build_try E p cfg ws d h))) \<and>
   (\<forall>q e0 e. PrintRaised (ErrorBuilding q e0) e \<notin> set (snd (build_try E p cfg ws d h)))"
  by (cases rule: build_try_cases [where E=E and p=p and cfg=cfg and ws=ws and d=d and h=h]) simp_all

text \<open>The try block ends in true exactly after an exit status of 0 with nothing raised.\<close>

lemma build_try_true_iff:
  "fst (build_try E p cfg ws d h) = Ok True \<longleftrightarrow>
     (\<exists>c. Subprocess c (Inr 0) \<in> set (snd (build_try E p cfg ws d h))) \<and>
     (\<forall>x e. Glob x (Inl e) \<notin> set (snd (build_try E p cfg ws d h))) \<and>
     (\<forall>m e. PrintRaised m e \<notin> set (snd (build_try E p cfg ws d h)))"
  by (cases rule: build_try_cases [where E=E and p=p and cfg=cfg and ws=ws and d=d and h=h]) auto

text \<open>The try block raises exactly what the invocation, the listing or a print raised.\<close>

lemma build_try_raise_iff:
  "fst (build_try E p cfg ws d h) = Raise e \<longleftrightarrow>
     (\<exists>c. Subprocess c (Inl e) \<in> set (snd (build_try E p cfg ws d h))) \<or>
     (\<exists>x. Glob x (Inl e) \<in> set (snd (build_try E p cfg ws d h))) \<or>
     (\<exists>m. PrintRaised m e \<in> set (snd (build_try E p cfg ws d h)))"
  by (cases rule: build_try_cases [where E=E and p=p and cfg=cfg and ws=ws and d=d and h=h]) auto

text \<open>The four ways through \<open>build_for_platform\<close>.\<close>

lemma build_for_platform_cases:
  obtains
    (mkdir) e where
      "path_mkdir E (h @ [Print (BuildingFor p)]) (joinpath od p) = Some e"
      "build_for_platform E p cfg ws od h =
         (Raise e, [Print (BuildingFor p), Mkdir (joinpath od p) (Some e)])"
  | (returned) b where
      "path_mkdir E (h @ [Print (BuildingFor p)]) (joinpath od p) = None"
      "fst (build_try E p cfg ws (joinpath od p)
              (h @ [Print (BuildingFor p), Mkdir (joinpath od p) None])) = Ok b"
      "build_for_platform E p cfg ws od h =
         (Ok b, [Print (BuildingFor p), Mkdir (joinpath od p) None] @
                snd (build_try E p cfg ws (joinpath od p)
                       (h @ [Print (BuildingFor p), Mkdir (joinpath od p) None])))"
  | (handled) e where
      "path_mkdir E (h @ [Print (BuildingFor p)]) (joinpath od p) = None"
      "fst (build_try E p cfg ws (joinpath od p)
              (h @ [Print (BuildingFor p), Mkdir (joinpath od p) None])) = Raise e"
      "build_for_platform E p cfg ws od h =
         (Ok False, [Print (BuildingFor p), Mkdir (joinpath od p) None] @
                    snd (build_try E p cfg ws (joinpath od p)
                           (h @ [Print (BuildingFor p), Mkdir (joinpath od p) None])) @
                    [Print (ErrorBuilding p e)])"
  | (escaped) e e' where
      "path_mkdir E (h @ [Print (BuildingFor p)]) (joinpath od p) = None"
      "fst (build_try E p cfg ws (joinpath od p)
              (h @ [Print (BuildingFor p), Mkdir (joinpath od p) None])) = Raise e"
      "build_for_platform E p cfg ws od h =
         (Raise e', [Print (BuildingFor p), Mkdir (joinpath od p) None] @
                    snd (build_try E p cfg ws (joinpath od p)
                           (h @ [Print (BuildingFor p), Mkdir (joinpath od p) None])) @
                    [PrintRaised (ErrorBuilding p e) e'])"
proof -
  let ?d = "joinpath od p"
  let ?pre = "[Print (BuildingFor p), Mkdir ?d None]"
  let ?block = "build_try E p cfg ws ?d (h @ ?pre)"
  show thesis
  proof (cases "path_mkdir E (h @ [Print (BuildingFor p)]) ?d")
    case (Some e)
    then have "build_for_platform E p cfg ws od h = (Raise e, [Print (BuildingFor p), Mkdir ?d (Some e)])"
      by (simp add: build_for_platform_def Let_def)
    with Some show thesis by (rule mkdir)
  next
    case None
    obtain r evs where t: "?block = (r, evs)" by (cases ?block)
    show thesis
    proof (cases r)
      case (Ok b)
      with None t have "build_for_platform E p cfg ws od h = (Ok b, ?pre @ snd ?block)"
        by (simp add: build_for_platform_def Let_def)
      with None t Ok show thesis using returned [of b] by simp
    next
      case (Raise e)
      show thesis
      proof (cases "stdout_write E (h @ ?pre @ evs) (ErrorBuilding p e)")
        case printed: None
        with None t Raise have "build_for_platform E p cfg ws od h =
            (Ok False, ?pre @ snd ?block @ [Print (ErrorBuilding p e)])"
          by (simp add: build_for_platform_def Let_def print_status_def)
        with None t Raise show thesis using handled [of e] by simp
      next
        case (Some e')
        with None t Raise have "build_for_platform E p cfg ws od h =
            (Raise e', ?pre @ snd ?block @ [PrintRaised (ErrorBuilding p e) e'])"
          by (simp add: build_for_platform_def Let_def print_status_def)
        with None t Raise show thesis using escaped [of e e'] by simp
      qed
    qed
  qed
qed


lemma build_for_platform_reported:
  "reported (snd (build_for_platform E p cfg ws od h)) = []"
  using build_try_trace [of E p cfg ws "joinpath od p" "h @ [Print (BuildingFor p), Mkdir (joinpath od p) None]"]
  by (cases rule: build_for_platform_cases [where E=E and p=p and cfg=cfg and ws=ws and od=od and h=h]) (simp_all add: reported_append)



text \<open>
  When no print raises, the result of \<open>build_for_platform\<close> is decided by the directory
  creation, the container run and whether the listing raises.
\<close>

lemma build_for_platform_result:
  assumes "\<forall>m e. PrintRaised m e \<notin> set (snd (build_for_platform E p cfg ws od h))"
  shows "fst (build_for_platform E p cfg ws od h) =
     (case path_mkdir E (h @ [Print (BuildingFor p)]) (joinpath od p) of
        Some e \<Rightarrow> Raise e
      | None \<Rightarrow>
          (case subprocess_run E
                  (h @ [Print (BuildingFor p), Mkdir (joinpath od p) None,
                        Print (Running (cmd_str cfg ws (joinpath od p)))])
                  (cmd_str cfg ws (joinpath od p)) of
             Inl e \<Rightarrow> Ok False
           | Inr rc \<Rightarrow>
               if rc = 0 then
                 (case path_glob E
                         (h @ [Print (BuildingFor p), Mkdir (joinpath od p) None,
                               Print (Running (cmd_str cfg ws (joinpath od p))),
                               Subprocess (cmd_str cfg ws (joinpath od p)) (Inr 0),
                               Print (SuccessfullyBuilt p)])
                         (joinpath od p) of
                    Inl e \<Rightarrow> Ok False
                  | Inr artifacts \<Rightarrow> Ok True)
               else Ok False))"
proof (cases rule: build_for_platform_cases [where E=E and p=p and cfg=cfg and ws=ws and od=od and h=h])
  case (mkdir e)
  then show ?thesis by simp
next
  case (returned b)
  then show ?thesis
    using assms
    by (cases rule: build_try_cases [where E=E and p=p and cfg=cfg and ws=ws and d="joinpath od p"
          and h="h @ [Print (BuildingFor p), Mkdir (joinpath od p) None]"]) simp_all
next
  case (handled e)
  then show ?thesis
    using assms
    by (cases rule: build_try_cases [where E=E and p=p and cfg=cfg and ws=ws and d="joinpath od p"
          and h="h @ [Print (BuildingFor p), Mkdir (joinpath od p) None]"]) simp_all
next
  case (escaped e e')
  then have "PrintRaised (ErrorBuilding p e) e' \<in> set (snd (build_for_platform E p cfg ws od h))"
    by simp
  with assms show ?thesis by blast
qed

subsection \<open>The loops of main\<close>

lemma dry_run_loop_recipes:
  "set ps \<subseteq> set registry_keys \<Longrightarrow> dry_run_loop ps = (Ok (), concat (map recipe ps))"
proof (induction ps)
  case Nil
  then show ?case by simp
next
  case (Cons p ps)
  then obtain cfg where "map_of PLATFORM_CONFIGS p = Some cfg"
    using registry_lookup [of p] by auto
  with Cons show ?case by (simp add: recipe_def)
qed




lemma build_loop_reported:
  "reported (snd (build_loop E ps ws od results h)) = []"
proof (induction ps arbitrary: results h)
  case Nil
  then show ?case by simp
next
  case (Cons p ps)
  then show ?case
    by (simp add: split_beta reported_append build_for_platform_reported
        split: option.splits res.splits)
qed

lemma summary_loop_lines:
  "summary_loop results n =
     (n + length (filter snd results), map (\<lambda>(p, s). Print (PlatformStatus p s)) results)"
  by (induction results n rule: summary_loop.induct) simp_all

lemma reported_status_lines:
  "reported (map (\<lambda>(p, s). Print (PlatformStatus p s)) results) = results"
  by (induction results) auto

lemma attempted_status_lines:
  "attempted (map (\<lambda>(p, s). Print (PlatformStatus p s)) results) = []"
  by (induction results) auto

lemma container_run_status_lines:
  "filter is_container_run (map (\<lambda>(p, s). Print (PlatformStatus p s)) results) = []"
  by (induction results) auto

lemma list_artifacts_silent:
  "attempted (snd (list_artifacts E od names h)) = [] \<and>
   reported (snd (list_artifacts E od names h)) = [] \<and>
   filter is_container_run (snd (list_artifacts E od names h)) = []"
proof (induction names arbitrary: h)
  case Nil
  then show ?case by simp
next
  case (Cons name names)
  then show ?case
    by (simp add: Let_def split_beta attempted_append reported_append split: sum.splits)
qed

lemma summary_silent:
  "attempted (snd (summary E od results h)) = [] \<and>
   reported (snd (summary E od results h)) = results \<and>
   filter is_container_run (snd (summary E od results h)) = []"
  by (simp add: summary_def summary_loop_lines Let_def split_beta attempted_append reported_append
      reported_status_lines attempted_status_lines container_run_status_lines
      list_artifacts_silent split: sum.splits res.splits)

text \<open>The exit code that the summary chooses: 0 when every entry of \<open>results\<close> is a success.\<close>

lemma summary_exit_code:
  assumes "fst (summary E od results h) = Exit code"
  shows "code = (if list_all snd results then 0 else 1)"
proof -
  have "length (filter snd results) < length results \<longleftrightarrow> \<not> list_all snd results"
    by (induction results) (auto simp add: less_Suc_eq_le)
  with assms show ?thesis
    by (auto simp add: summary_def summary_loop_lines Let_def split_beta
        split: sum.splits res.splits if_splits)
qed

text \<open>The dry-run branch, once the arguments are parsed.\<close>

lemma main_dry_run_unfold:
  assumes "parse_args (path_cwd E) c = Inr a" and "dry_run a"
  shows "main E c =
     (case check_docker E of
        (Raise e, evs0) \<Rightarrow>
          if caught_by_probe e then (Exit 1, evs0 @ [Print DockerNotAvailable])
          else (Uncaught e, evs0)
      | (Ok u, evs0) \<Rightarrow>
          (Exit 0,
           evs0 @
           [Print (BuildingForPlatforms (platforms_to_build (platforms a))),
            Print (Workspace (workspace a)),
            Print (OutputDirectory (output_dir a)),
            Print DryRunMode] @
           concat (map recipe (platforms_to_build (platforms a)))))"
  using assms dry_run_loop_recipes [OF platforms_to_build_registered [OF assms(1)]]
  by (simp add: main_def main_parsed_def Let_def split: prod.splits res.splits)

section \<open>The exit code (claim C1)\<close>

text \<open>
  In normal mode, with Docker available, a run that ends through the summary exits with
  0 exactly when every status line of the summary is a success. The summary has one line
  per key of \<open>results\<close>, and a key holds the result of the last build of that platform.
\<close>

lemma main_exit_code_recorded:
  assumes "parse_args (path_cwd E) c = Inr a"
    and "\<not> dry_run a"
    and "docker_version E = Inr 0"
    and "fst (main E c) = Exit code"
  shows "code = (if list_all snd (reported (snd (main E c))) then 0 else 1)"
proof -
  let ?evs1 = "[DockerVersion (Inr 0),
                Print (BuildingForPlatforms (platforms_to_build (platforms a))),
                Print (Workspace (workspace a)), Print (OutputDirectory (output_dir a))]"
  let ?made = "path_mkdir E ?evs1 (output_dir a)"
  let ?evs2 = "?evs1 @ [Mkdir (output_dir a) ?made]"
  let ?loop = "build_loop E (platforms_to_build (platforms a)) (workspace a) (output_dir a) [] ?evs2"
  have unfold: "main E c =
      (case ?made of
         Some e \<Rightarrow> (Uncaught e, ?evs2)
       | None \<Rightarrow>
           (case fst ?loop of
              Raise e \<Rightarrow> (Uncaught e, ?evs2 @ snd ?loop)
            | Ok results \<Rightarrow>
                (fst (summary E (output_dir a) results (?evs2 @ snd ?loop)),
                 ?evs2 @ snd ?loop @ snd (summary E (output_dir a) results (?evs2 @ snd ?loop)))))"
    using assms(1-3)
    by (simp add: main_def main_parsed_def check_docker_def Let_def split_beta
        split: option.splits res.splits)
  from assms(4) obtain results where
      loop: "fst ?loop = Ok results"
      and out: "fst (summary E (output_dir a) results (?evs2 @ snd ?loop)) = Exit code"
      and trace: "snd (main E c) =
        ?evs2 @ snd ?loop @ snd (summary E (output_dir a) results (?evs2 @ snd ?loop))"
    unfolding unfold by (auto split: option.splits res.splits)
  have "reported (snd (main E c)) = results"
    unfolding trace using summary_silent [of E "output_dir a" results "?evs2 @ snd ?loop"]
    by (simp add: reported_append build_loop_reported)
  with summary_exit_code [OF out] show ?thesis by simp
qed

text \<open>
  Claim C1: in normal mode with Docker available the exit code is 0 if and only if every
  selected platform's build returned success, and 1 if at least one failed.
  The run \<open>--platforms ubuntu20.04 ubuntu20.04\<close> builds the platform twice. When the
  first container exits with status 1 and the second with status 0, the first build
  returns false, the second overwrites its entry of \<open>results\<close>, the summary counts 1 of 1
  and the process exits with code 0.
\<close>

theorem main_same_platform_twice:
  "main env_first_run_fails (cl_platforms [''ubuntu20.04'', ''ubuntu20.04''] False) =
     (Exit 0,
      [DockerVersion (Inr 0),
       Print (BuildingForPlatforms [''ubuntu20.04'', ''ubuntu20.04'']),
       Print (Workspace ''/src''),
       Print (OutputDirectory ''multi_platform_builds''),
       Mkdir ''multi_platform_builds'' None,
       Print (BuildingFor ''ubuntu20.04''),
       Mkdir ''multi_platform_builds/ubuntu20.04'' None,
       Print (Running (cmd_str ubuntu20_04 ''/src'' ''multi_platform_builds/ubuntu20.04'')),
       Subprocess (cmd_str ubuntu20_04 ''/src'' ''multi_platform_builds/ubuntu20.04'') (Inr 1),
       Print (BuildFailed ''ubuntu20.04''),
       Print (BuildingFor ''ubuntu20.04''),
       Mkdir ''multi_platform_builds/ubuntu20.04'' None,
       Print (Running (cmd_str ubuntu20_04 ''/src'' ''multi_platform_builds/ubuntu20.04'')),
       Subprocess (cmd_str ubuntu20_04 ''/src'' ''multi_platform_builds/ubuntu20.04'') (Inr 0),
       Print (SuccessfullyBuilt ''ubuntu20.04''),
       Glob ''multi_platform_builds/ubuntu20.04'' (Inr [''output_1.0.tar.gz'']),
       Print (GeneratedArtifacts [''output_1.0.tar.gz'']),
       Print BuildSummary,
       Print (PlatformStatus ''ubuntu20.04'' True),
       Print (TotalBuilt 1 1),
       Print (ArtifactsSavedTo ''multi_platform_builds''),
       Iterdir ''multi_platform_builds'' (Inr [''ubuntu20.04'']),
       IsDir ''multi_platform_builds/ubuntu20.04'' True,
       Glob ''multi_platform_builds/ubuntu20.04'' (Inr [''output_1.0.tar.gz'']),
       Print (PlatformArtifacts ''ubuntu20.04'' [''output_1.0.tar.gz''])])"
  by (simp add: main_def parse_args_def cl_platforms_def choices_def registry_keys_eq
      main_parsed_def check_docker_def platforms_to_build_def
      registry_lookup_0 build_for_platform_unfold
      summary_def joinpath_def env_first_run_fails_def env_all_ok_def)

section \<open>The result of build_for_platform (claim C2)\<close>

text \<open>
  Claim C2, as amended: \<open>build_for_platform\<close> returns true if and only if the container
  process exited with status 0 and, after that, neither the artifact listing nor a print
  of a status line raised; and in runs where no print of a status line raises, whether
  the listing finds artifacts or none never changes the returned boolean.
\<close>

theorem build_for_platform_true_iff:
  "(fst (build_for_platform E p cfg ws od h) = Ok True \<longleftrightarrow>
      (\<exists>c. Subprocess c (Inr 0) \<in> set (snd (build_for_platform E p cfg ws od h))) \<and>
      (\<forall>d e. Glob d (Inl e) \<notin> set (snd (build_for_platform E p cfg ws od h))) \<and>
      (\<forall>m e. PrintRaised m e \<notin> set (snd (build_for_platform E p cfg ws od h)))) \<and>
   ((\<forall>m e. PrintRaised m e \<notin>
        set (snd (build_for_platform (E\<lparr>path_glob := (\<lambda>h d. Inr present)\<rparr>) p cfg ws od h))) \<and>
    (\<forall>m e. PrintRaised m e \<notin>
        set (snd (build_for_platform (E\<lparr>path_glob := (\<lambda>h d. Inr [])\<rparr>) p cfg ws od h))) \<longrightarrow>
    fst (build_for_platform (E\<lparr>path_glob := (\<lambda>h d. Inr present)\<rparr>) p cfg ws od h) =
    fst (build_for_platform (E\<lparr>path_glob := (\<lambda>h d. Inr [])\<rparr>) p cfg ws od h))"
proof (intro conjI impI)
  let ?block = "build_try E p cfg ws (joinpath od p) (h @ [Print (BuildingFor p), Mkdir (joinpath od p) None])"
  note t = build_try_true_iff [of E p cfg ws "joinpath od p" "h @ [Print (BuildingFor p), Mkdir (joinpath od p) None]"]
  note r = build_try_raise_iff [of E p cfg ws "joinpath od p" "h @ [Print (BuildingFor p), Mkdir (joinpath od p) None]"]
  show "fst (build_for_platform E p cfg ws od h) = Ok True \<longleftrightarrow>
      (\<exists>c. Subprocess c (Inr 0) \<in> set (snd (build_for_platform E p cfg ws od h))) \<and>
      (\<forall>d e. Glob d (Inl e) \<notin> set (snd (build_for_platform E p cfg ws od h))) \<and>
      (\<forall>m e. PrintRaised m e \<notin> set (snd (build_for_platform E p cfg ws od h)))"
  proof (cases rule: build_for_platform_cases [where E=E and p=p and cfg=cfg and ws=ws and od=od and h=h])
    case (mkdir e)
    then show ?thesis by simp
  next
    case (returned b)
    then show ?thesis using t by auto
  next
    case (handled e)
    then have "fst ?block \<noteq> Ok True" by simp
    with t handled show ?thesis by auto
  next
    case (escaped e e')
    then show ?thesis by auto
  qed
next
  assume quiet:
    "(\<forall>m e. PrintRaised m e \<notin>
        set (snd (build_for_platform (E\<lparr>path_glob := (\<lambda>h d. Inr present)\<rparr>) p cfg ws od h))) \<and>
     (\<forall>m e. PrintRaised m e \<notin>
        set (snd (build_for_platform (E\<lparr>path_glob := (\<lambda>h d. Inr [])\<rparr>) p cfg ws od h)))"
  from quiet have
    "fst (build_for_platform (E\<lparr>path_glob := (\<lambda>h d. Inr present)\<rparr>) p cfg ws od h) =
     (case path_mkdir E (h @ [Print (BuildingFor p)]) (joinpath od p) of
        Some e \<Rightarrow> Raise e
      | None \<Rightarrow>
          (case subprocess_run E
                  (h @ [Print (BuildingFor p), Mkdir (joinpath od p) None,
                        Print (Running (cmd_str cfg ws (joinpath od p)))])
                  (cmd_str cfg ws (joinpath od p)) of
             Inl e \<Rightarrow> Ok False
           | Inr rc \<Rightarrow> Ok (rc = 0)))"
    by (subst build_for_platform_result) (simp_all split: option.splits sum.splits)
  moreover from quiet have
    "fst (build_for_platform (E\<lparr>path_glob := (\<lambda>h d. Inr [])\<rparr>) p cfg ws od h) =
     (case path_mkdir E (h @ [Print (BuildingFor p)]) (joinpath od p) of
        Some e \<Rightarrow> Raise e
      | None \<Rightarrow>
          (case subprocess_run E
                  (h @ [Print (BuildingFor p), Mkdir (joinpath od p) None,
                        Print (Running (cmd_str cfg ws (joinpath od p)))])
                  (cmd_str cfg ws (joinpath od p)) of
             Inl e \<Rightarrow> Ok False
           | Inr rc \<Rightarrow> Ok (rc = 0)))"
    by (subst build_for_platform_result) (simp_all split: option.splits sum.splits)
  ultimately show
    "fst (build_for_platform (E\<lparr>path_glob := (\<lambda>h d. Inr present)\<rparr>) p cfg ws od h) =
     fst (build_for_platform (E\<lparr>path_glob := (\<lambda>h d. Inr [])\<rparr>) p cfg ws od h)"
    by simp
qed

text \<open>
  The theorem at a container that exits with 0, at one that exits with 1, and at a
  listing with and without artifacts.
\<close>

theorem build_for_platform_true_iff_witness:
  "fst (build_for_platform env_all_ok ''ubuntu20.04'' ubuntu20_04 ''/src'' ''out'' []) = Ok True \<and>
   fst (build_for_platform env_first_run_fails ''ubuntu20.04'' ubuntu20_04 ''/src'' ''out'' []) = Ok False \<and>
   fst (build_for_platform (env_all_ok\<lparr>path_glob := (\<lambda>h d. Inr [''output_1.0.tar.gz''])\<rparr>)
          ''ubuntu20.04'' ubuntu20_04 ''/src'' ''out'' []) =
   fst (build_for_platform (env_all_ok\<lparr>path_glob := (\<lambda>h d. Inr [])\<rparr>)
          ''ubuntu20.04'' ubuntu20_04 ''/src'' ''out'' [])"
  using build_for_platform_true_iff [of env_all_ok "''ubuntu20.04''" ubuntu20_04 "''/src''" "''out''" "[]"
      "[''output_1.0.tar.gz'']"]
    build_for_platform_true_iff [of env_first_run_fails "''ubuntu20.04''" ubuntu20_04 "''/src''" "''out''" "[]"]
  by (simp add: build_for_platform_unfold env_all_ok_def env_first_run_fails_def)

text \<open>
  Claim C2 as stated fails: the container exits with status 0 and the function does not
  return true. On a standard output that cannot encode the symbols of the status lines,
  the print of the success line raises inside the try block, the print of the handler
  raises too, and the exception leaves the function. When listing the output directory
  raises, the handler catches the exception and the function returns false.
\<close>

theorem build_for_platform_status_0_not_true:
  "build_for_platform env_ascii_stdout ''ubuntu20.04'' ubuntu20_04 ''/src'' ''multi_platform_builds'' [] =
     (Raise UnicodeEncodeError,
      [Print (BuildingFor ''ubuntu20.04''),
       Mkdir ''multi_platform_builds/ubuntu20.04'' None,
       Print (Running (cmd_str ubuntu20_04 ''/src'' ''multi_platform_builds/ubuntu20.04'')),
       Subprocess (cmd_str ubuntu20_04 ''/src'' ''multi_platform_builds/ubuntu20.04'') (Inr 0),
       PrintRaised (SuccessfullyBuilt ''ubuntu20.04'') UnicodeEncodeError,
       PrintRaised (ErrorBuilding ''ubuntu20.04'' UnicodeEncodeError) UnicodeEncodeError]) \<and>
   build_for_platform env_listing_fails ''ubuntu20.04'' ubuntu20_04 ''/src'' ''multi_platform_builds'' [] =
     (Ok False,
      [Print (BuildingFor ''ubuntu20.04''),
       Mkdir ''multi_platform_builds/ubuntu20.04'' None,
       Print (Running (cmd_str ubuntu20_04 ''/src'' ''multi_platform_builds/ubuntu20.04'')),
       Subprocess (cmd_str ubuntu20_04 ''/src'' ''multi_platform_builds/ubuntu20.04'') (Inr 0),
       Print (SuccessfullyBuilt ''ubuntu20.04''),
       Glob ''multi_platform_builds/ubuntu20.04'' (Inl OSError),
       Print (ErrorBuilding ''ubuntu20.04'' OSError)])"
  by (simp add: build_for_platform_unfold env_ascii_stdout_def env_listing_fails_def env_all_ok_def
      joinpath_def)

section \<open>No fail-fast in the build loop (claim C3)\<close>




section \<open>Exceptions in build_for_platform (claims C4 and C8)\<close>






section \<open>Dry run and the availability check (claims C5, C6 and C9)\<close>




text \<open>
  Claim C6: when the version query of the container runtime fails (the binary is not
  found, or it exits with a nonzero status), the process prints the explanation and exits
  with code 1; it has created no directory, entered no platform build and run no container.
\<close>

theorem main_docker_unavailable:
  assumes "parse_args (path_cwd E) c = Inr a"
    and "docker_version E = Inl FileNotFoundError \<or> (\<exists>rc. rc \<noteq> 0 \<and> docker_version E = Inr rc)"
  shows "main E c = (Exit 1, [DockerVersion (docker_version E), Print DockerNotAvailable]) \<and>
         filter is_mkdir (snd (main E c)) = [] \<and>
         attempted (snd (main E c)) = [] \<and>
         filter is_container_run (snd (main E c)) = []"
  using assms by (auto simp add: main_def main_parsed_def check_docker_def Let_def)

text \<open>The theorem at a normal-mode run without a \<open>docker\<close> binary, and with a broken one.\<close>

theorem main_docker_unavailable_witness:
  "main env_no_docker (cl_platforms [''all''] False) =
     (Exit 1, [DockerVersion (Inl FileNotFoundError), Print DockerNotAvailable]) \<and>
   main env_docker_broken (cl_platforms [''all''] False) =
     (Exit 1, [DockerVersion (Inr 1), Print DockerNotAvailable])"
proof -
  let ?c = "cl_platforms [''all''] False"
  let ?a = "args_platforms [''all''] False"
  have p: "parse_args ''/src'' ?c = Inr ?a"
    by (simp add: parse_args_def cl_platforms_def args_platforms_def choices_def)
  show ?thesis
    using main_docker_unavailable [of env_no_docker ?c ?a] main_docker_unavailable [of env_docker_broken ?c ?a] p
    by (simp add: env_no_docker_def env_docker_broken_def env_all_ok_def)
qed

text \<open>
  Claim C9: the availability check runs before the dry-run branch: the version query is
  the first event of every dry run, and when it fails the process exits with code 1
  without printing the dry-run banner or any recipe line.
\<close>

theorem main_probe_before_dry_run:
  assumes "parse_args (path_cwd E) c = Inr a" and "dry_run a"
  shows "(\<exists>rest. snd (main E c) = DockerVersion (docker_version E) # rest) \<and>
         (docker_version E = Inl FileNotFoundError \<or> (\<exists>rc. rc \<noteq> 0 \<and> docker_version E = Inr rc) \<longrightarrow>
            fst (main E c) = Exit 1 \<and>
            filter is_recipe (snd (main E c)) = [] \<and>
            Print DryRunMode \<notin> set (snd (main E c)))"
  unfolding main_dry_run_unfold [OF assms]
  by (auto simp add: check_docker_def Let_def split: sum.splits)

text \<open>The theorem at a dry run without a \<open>docker\<close> binary.\<close>

theorem main_probe_before_dry_run_witness:
  "main env_no_docker (cl_platforms [''ubuntu20.04'', ''ubuntu22.04''] True) =
     (Exit 1, [DockerVersion (Inl FileNotFoundError), Print DockerNotAvailable])"
proof -
  let ?c = "cl_platforms [''ubuntu20.04'', ''ubuntu22.04''] True"
  let ?a = "args_platforms [''ubuntu20.04'', ''ubuntu22.04''] True"
  have cwd: "path_cwd env_no_docker = ''/src''"
    and docker: "docker_version env_no_docker = Inl FileNotFoundError"
    by (simp_all add: env_no_docker_def env_all_ok_def)
  have p: "parse_args ''/src'' ?c = Inr ?a"
    by (simp add: parse_args_def cl_platforms_def args_platforms_def choices_def registry_keys_eq)
  have run: "main env_no_docker ?c = (Exit 1, [DockerVersion (Inl FileNotFoundError), Print DockerNotAvailable])"
    by (simp add: main_def cwd p main_parsed_def check_docker_def docker)
  show ?thesis
    using main_probe_before_dry_run [of env_no_docker ?c ?a] p
    by (simp add: cwd docker args_platforms_def run)
qed

section \<open>The platforms argument (claims C7 and C10)\<close>

text \<open>
  Claim C7: the values of \<open>--platforms\<close> are accepted exactly when there is at least one
  and each is a registry key or the literal \<open>all\<close> (an absent option is accepted and
  stands for \<open>all\<close>); any other identifier ends the process at parse time, with status 2
  and before anything else happens; and when the selection is the sentinel the platforms
  to build are the registry keys.
\<close>

theorem parse_args_platforms_choices:
  "((\<exists>a. parse_args (path_cwd E) c = Inr a) \<longleftrightarrow>
      (case opt_platforms c of
         None \<Rightarrow> True
       | Some vs \<Rightarrow> vs \<noteq> [] \<and> set vs \<subseteq> set registry_keys \<union> {''all''})) \<and>
   ((\<nexists>a. parse_args (path_cwd E) c = Inr a) \<longrightarrow>
      parse_args (path_cwd E) c = Inl 2 \<and> main E c = (Exit 2, [])) \<and>
   (parse_args (path_cwd E) c = Inr a \<longrightarrow>
      set (platforms a) \<subseteq> set registry_keys \<union> {''all''} \<and>
      (opt_platforms c = None \<longrightarrow> platforms a = [''all'']) \<and>
      (platforms a = [''all''] \<longrightarrow> platforms_to_build (platforms a) = registry_keys))"
  by (auto simp add: parse_args_def main_def choices_def Let_def list_all_iff platforms_to_build_def
      split: option.splits if_splits)

text \<open>The theorem at \<open>--platforms ubuntu20.04 centos7\<close> and at \<open>--platforms all\<close>.\<close>

theorem parse_args_platforms_choices_witness:
  "parse_args ''/src'' (cl_platforms [''ubuntu20.04'', ''centos7''] False) = Inl 2 \<and>
   main env_all_ok (cl_platforms [''ubuntu20.04'', ''centos7''] False) = (Exit 2, []) \<and>
   parse_args ''/src'' (cl_platforms [''all''] False) = Inr (args_platforms [''all''] False) \<and>
   platforms_to_build (platforms (args_platforms [''all''] False)) =
     [''ubuntu20.04'', ''ubuntu22.04'', ''manylinux_2014'', ''manylinux_2_24'']"
proof -
  have cwd: "path_cwd env_all_ok = ''/src''"
    by (simp add: env_all_ok_def)
  have p: "parse_args ''/src'' (cl_platforms [''all''] False) = Inr (args_platforms [''all''] False)"
    by (simp add: parse_args_def cl_platforms_def args_platforms_def choices_def)
  have q: "\<nexists>a. parse_args ''/src'' (cl_platforms [''ubuntu20.04'', ''centos7''] False) = Inr a"
    by (simp add: parse_args_def cl_platforms_def choices_def registry_keys_eq)
  show ?thesis
    using parse_args_platforms_choices [of env_all_ok "cl_platforms [''ubuntu20.04'', ''centos7''] False"
        "args_platforms [''all''] False"]
      parse_args_platforms_choices [of env_all_ok "cl_platforms [''all''] False" "args_platforms [''all''] False"]
      q
    by (simp add: cwd p args_platforms_def registry_keys_eq)
qed

text \<open>
  Claim C10: when the literal \<open>all\<close> is anywhere among the accepted values of
  \<open>--platforms\<close>, the platforms to build are the registry keys in registry order, and
  the whole run is the run of \<open>--platforms all\<close>: the explicit identifiers are ignored.
\<close>

theorem all_overrides_explicit_platforms:
  assumes "parse_args (path_cwd E) c = Inr a" and "''all'' \<in> set (platforms a)"
  shows "platforms_to_build (platforms a) =
           [''ubuntu20.04'', ''ubuntu22.04'', ''manylinux_2014'', ''manylinux_2_24''] \<and>
         platforms_to_build (platforms a) = map fst PLATFORM_CONFIGS \<and>
         main E c = main E (c\<lparr>opt_platforms := Some [''all'']\<rparr>)"
proof -
  have ptb: "platforms_to_build (platforms a) = registry_keys"
    using assms(2) by (simp add: platforms_to_build_def)
  have only: "platforms_to_build [''all''] = registry_keys"
    by (simp add: platforms_to_build_def)
  have parsed: "parse_args (path_cwd E) (c\<lparr>opt_platforms := Some [''all'']\<rparr>) =
      Inr (a\<lparr>platforms := [''all'']\<rparr>)"
    using assms(1)
    by (auto simp add: parse_args_def choices_def Let_def split: option.splits if_splits)
  have "main_parsed E (a\<lparr>platforms := [''all'']\<rparr>) = main_parsed E a"
    by (simp add: main_parsed_def ptb only Let_def split: prod.splits res.splits option.splits)
  then have same: "main E c = main E (c\<lparr>opt_platforms := Some [''all'']\<rparr>)"
    using assms(1) parsed by (simp add: main_def)
  have keys: "map fst PLATFORM_CONFIGS = registry_keys"
    by (simp add: registry_keys_def)
  show ?thesis
    using same by (simp add: ptb keys registry_keys_eq)
qed

text \<open>The theorem at \<open>--platforms ubuntu22.04 all ubuntu20.04 --dry-run\<close>.\<close>

theorem all_overrides_explicit_platforms_witness:
  "platforms_to_build [''ubuntu22.04'', ''all'', ''ubuntu20.04''] =
     [''ubuntu20.04'', ''ubuntu22.04'', ''manylinux_2014'', ''manylinux_2_24''] \<and>
   main env_all_ok (cl_platforms [''ubuntu22.04'', ''all'', ''ubuntu20.04''] True) =
   main env_all_ok (cl_platforms [''all''] True)"
proof -
  let ?c = "cl_platforms [''ubuntu22.04'', ''all'', ''ubuntu20.04''] True"
  let ?a = "args_platforms [''ubuntu22.04'', ''all'', ''ubuntu20.04''] True"
  have cwd: "path_cwd env_all_ok = ''/src''"
    by (simp add: env_all_ok_def)
  have p: "parse_args ''/src'' ?c = Inr ?a"
    by (simp add: parse_args_def cl_platforms_def args_platforms_def choices_def registry_keys_eq)
  show ?thesis
    using all_overrides_explicit_platforms [of env_all_ok ?c ?a] p
    by (simp add: cwd args_platforms_def cl_platforms_def)
qed

end
